theory Spec2Isabelle
  imports Main
begin

section \<open>JavaScript values\<close>

text \<open>
  The error handler receives a value of type \<^verbatim>\<open>unknown\<close>. Data is modelled as finite
  trees: the primitives, arrays, and plain objects whose own enumerable properties are
  listed in enumeration order. A \<open>JNum\<close> is an integral number in the safe range; strings
  are sequences of bytes (UTF-8), so the accented letters of the French messages are
  written as their two bytes. Cyclic objects, accessors, functions and symbols are not
  represented.
\<close>

datatype jsval =
    JUndefined
  | JNull
  | JBool bool
  | JNum int
  | JBigInt int
  | JStr string
  | JArr "jsval list"
  | JObj "(string \<times> jsval) list"

text \<open>
  A known request error of the storage client: its \<^verbatim>\<open>code\<close>, its optional \<^verbatim>\<open>meta\<close>
  record and its own message. The storage client fills \<^verbatim>\<open>meta.target\<close> with a
  constraint name or with the list of the fields of the constraint.
\<close>

datatype meta_value = MetaStr string | MetaList "string list"

record prisma_error =
  code :: string
  meta :: "(string \<times> meta_value) list option"
  prisma_message :: string

text \<open>
  What a \<^verbatim>\<open>catch\<close> clause can hand to the handler:
  \<^item> an instance of \<^verbatim>\<open>Prisma.PrismaClientKnownRequestError\<close>;
  \<^item> another instance of \<^verbatim>\<open>Error\<close>: its message, the other properties it owns, and the
    properties it inherits from the prototypes of its class (a subclass may put a
    \<^verbatim>\<open>status\<close> on its prototype);
  \<^item> another object that is not plain data (an instance of a class, an object created
    with a prototype, an array that was given named properties): the properties it owns
    and the properties it inherits;
  \<^item> plain data: a primitive, an array, or an object literal, whose prototype is the
    standard one.
  The inherited properties are listed nearest prototype first, without those of the
  standard prototypes (\<^verbatim>\<open>Object.prototype\<close>, \<^verbatim>\<open>Array.prototype\<close>, \<^verbatim>\<open>Error.prototype\<close>), which
  have no \<^verbatim>\<open>status\<close> and no \<^verbatim>\<open>error\<close>.
\<close>

datatype thrown =
    PrismaClientKnownRequestError prisma_error
  | NativeError string "(string \<times> jsval) list" "(string \<times> jsval) list"
  | Instance "(string \<times> jsval) list" "(string \<times> jsval) list"
  | Plain jsval

text \<open>The request, as far as the two files read it.\<close>

record request =
  req_method :: string
  originalUrl :: string
  url :: string
  path :: string
  headers :: "(string \<times> string) list"

text \<open>
  The handler returns nothing; what it does is the sequence of its writes: a line on the
  console, a line in the log sink, the status code given to \<^verbatim>\<open>res.status(..)\<close> and the
  body given to \<^verbatim>\<open>res.json(..)\<close>. A write is listed when its call has returned: what
  the framework then puts on the wire (no body under a code without content, or for a
  \<^verbatim>\<open>HEAD\<close> request) is its own business. A call either returns or throws.
\<close>

datatype effect =
    ConsoleError string
  | LoggerError string
  | ResStatus jsval
  | ResJson jsval

datatype completion = Returned | Threw thrown

type_synonym run = "effect list \<times> completion"

text \<open>
  The response object is an argument of the handler. Of its two methods the handler
  needs to know whether the call returns (\<open>None\<close>) or throws: \<^verbatim>\<open>res.status(code)\<close>, and
  \<^verbatim>\<open>res.json(body)\<close> on a response whose status code was set to \<^verbatim>\<open>code\<close>.
\<close>

record response =
  res_status :: "jsval \<Rightarrow> thrown option"
  res_json :: "jsval \<Rightarrow> jsval \<Rightarrow> thrown option"

section \<open>Strings\<close>

definition e_acute :: string where "e_acute = [CHR 0xC3, CHR 0xA9]"
definition e_circ :: string where "e_circ = [CHR 0xC3, CHR 0xAA]"
definition a_grave :: string where "a_grave = [CHR 0xC3, CHR 0xA0]"

fun join :: "string \<Rightarrow> string list \<Rightarrow> string" where
  "join sep [] = []"
| "join sep [x] = x"
| "join sep (x # y # ys) = x @ sep @ join sep (y # ys)"

fun digits :: "nat \<Rightarrow> string" where
  "digits n = (if n < 10 then [''0123456789'' ! n]
               else digits (n div 10) @ [''0123456789'' ! (n mod 10)])"

declare digits.simps [simp del]

text \<open>
  A number as JavaScript writes it. The numbers of the model are the safe integers (below
  \<open>2^53\<close> in absolute value), which are written in plain digits.
\<close>

definition show_int :: "int \<Rightarrow> string" where
  "show_int i = (if i < 0 then ''-'' @ digits (nat (- i)) else digits (nat i))"

section \<open>JSON.stringify\<close>

text \<open>
  \<^verbatim>\<open>JSON.stringify\<close> on the values above: \<^verbatim>\<open>undefined\<close> at the top gives \<^verbatim>\<open>undefined\<close>
  (here \<open>None\<close>), inside an array it is written \<^verbatim>\<open>null\<close>, as a property value the
  property is left out; a BigInt makes it throw a \<^verbatim>\<open>TypeError\<close>.
\<close>

definition hex4 :: "nat \<Rightarrow> string" where
  "hex4 n = ''00'' @ [''0123456789abcdef'' ! (n div 16), ''0123456789abcdef'' ! (n mod 16)]"

definition quote_char :: "char \<Rightarrow> string" where
  "quote_char c =
     (if c = CHR 0x22 then [CHR 0x5C, CHR 0x22]
      else if c = CHR 0x5C then [CHR 0x5C, CHR 0x5C]
      else if c = CHR 0x08 then [CHR 0x5C, CHR ''b'']
      else if c = CHR 0x09 then [CHR 0x5C, CHR ''t'']
      else if c = CHR 0x0A then [CHR 0x5C, CHR ''n'']
      else if c = CHR 0x0C then [CHR 0x5C, CHR ''f'']
      else if c = CHR 0x0D then [CHR 0x5C, CHR ''r'']
      else if (of_char c :: nat) < 32 then [CHR 0x5C, CHR ''u''] @ hex4 (of_char c)
      else [c])"

definition quote :: "string \<Rightarrow> string" where
  "quote s = [CHR 0x22] @ concat (map quote_char s) @ [CHR 0x22]"

definition bigint_error :: thrown where
  "bigint_error = NativeError ''Do not know how to serialize a BigInt'' [] []"

fun stringify_value :: "jsval \<Rightarrow> thrown + string option"
  and stringify_elements :: "jsval list \<Rightarrow> thrown + string list"
  and stringify_properties :: "(string \<times> jsval) list \<Rightarrow> thrown + string list"
where
  "stringify_value JUndefined = Inr None"
| "stringify_value JNull = Inr (Some ''null'')"
| "stringify_value (JBool b) = Inr (Some (if b then ''true'' else ''false''))"
| "stringify_value (JNum n) = Inr (Some (show_int n))"
| "stringify_value (JBigInt n) = Inl bigint_error"
| "stringify_value (JStr s) = Inr (Some (quote s))"
| "stringify_value (JArr xs) =
     (case stringify_elements xs of
        Inl exn \<Rightarrow> Inl exn
      | Inr parts \<Rightarrow> Inr (Some (''['' @ join '','' parts @ '']'')))"
| "stringify_value (JObj ps) =
     (case stringify_properties ps of
        Inl exn \<Rightarrow> Inl exn
      | Inr parts \<Rightarrow> Inr (Some (''{'' @ join '','' parts @ ''}'')))"
| "stringify_elements [] = Inr []"
| "stringify_elements (x # xs) =
     (case stringify_value x of
        Inl exn \<Rightarrow> Inl exn
      | Inr r \<Rightarrow>
          (case stringify_elements xs of
             Inl exn \<Rightarrow> Inl exn
           | Inr rs \<Rightarrow> Inr ((case r of None \<Rightarrow> ''null'' | Some s \<Rightarrow> s) # rs)))"
| "stringify_properties [] = Inr []"
| "stringify_properties (kv # ps) =
     (case stringify_value (snd kv) of
        Inl exn \<Rightarrow> Inl exn
      | Inr r \<Rightarrow>
          (case stringify_properties ps of
             Inl exn \<Rightarrow> Inl exn
           | Inr rs \<Rightarrow>
               Inr (case r of None \<Rightarrow> rs | Some s \<Rightarrow> (quote (fst kv) @ '':'' @ s) # rs)))"

section \<open>The error handler (src/Utils/errorHandler/errorHandler.ts)\<close>

subsection \<open>getPrismaErrorMessage\<close>

text \<open>
  \<^verbatim>\<open>error.meta?.target || 'inconnu'\<close> interpolated in a template literal: the empty string
  is falsy, every array is truthy (the empty one too) and is written as its elements
  joined by commas.
\<close>

definition truthy_meta :: "meta_value \<Rightarrow> bool" where
  "truthy_meta v = (case v of MetaStr s \<Rightarrow> s \<noteq> [] | MetaList xs \<Rightarrow> True)"

definition meta_to_string :: "meta_value \<Rightarrow> string" where
  "meta_to_string v = (case v of MetaStr s \<Rightarrow> s | MetaList xs \<Rightarrow> join '','' xs)"

definition meta_target :: "prisma_error \<Rightarrow> meta_value option" where
  "meta_target p = (case meta p of None \<Rightarrow> None | Some m \<Rightarrow> map_of m ''target'')"

definition unique_field :: "prisma_error \<Rightarrow> string" where
  "unique_field p =
     (case meta_target p of
        None \<Rightarrow> ''inconnu''
      | Some t \<Rightarrow> if truthy_meta t then meta_to_string t else ''inconnu'')"

definition unique_message :: "string \<Rightarrow> string" where
  "unique_message field =
     ''Erreur : le champ '' @ field @ '' doit '' @ e_circ @ ''tre unique. La valeur fournie est d''
       @ e_acute @ ''j'' @ a_grave @ '' utilis'' @ e_acute @ ''e.''"

definition foreign_key_message :: string where
  "foreign_key_message =
     ''Erreur : violation de contrainte de cl'' @ e_acute @ '' '' @ e_acute @ ''trang''
       @ [CHR 0xC3, CHR 0xA8] @ ''re. Veuillez v'' @ e_acute @ ''rifier les r'' @ e_acute
       @ ''f'' @ e_acute @ ''rences.''"

definition not_found_message :: string where
  "not_found_message =
     ''Erreur : Une op'' @ e_acute @ ''ration a '' @ e_acute @ ''chou'' @ e_acute
       @ '' car elle d'' @ e_acute @ ''pend d'un ou plusieurs enregistrements requis mais introuvables.''"

definition unknown_prisma_message :: string where
  "unknown_prisma_message = ''Erreur serveur : une erreur Prisma inconnue s'est produite.''"

text \<open>The result \<^verbatim>\<open>{status, message}\<close> is the pair of the two fields.\<close>

definition getPrismaErrorMessage :: "prisma_error \<Rightarrow> int \<times> string" where
  "getPrismaErrorMessage p =
     (if code p = ''P2002'' then (400, unique_message (unique_field p))
      else if code p = ''P2003'' then (400, foreign_key_message)
      else if code p = ''P2025'' then (404, not_found_message)
      else (500, unknown_prisma_message))"

subsection \<open>formatValidationErrors, throwError, logError, sendErrorResponse\<close>

text \<open>
  Reading a property of the caught value, and the operator \<^verbatim>\<open>in\<close>: both look at the
  properties the object owns, then at those it inherits.
\<close>

definition properties :: "thrown \<Rightarrow> (string \<times> jsval) list" where
  "properties e =
     (case e of
        NativeError msg own inherited \<Rightarrow> own @ inherited
      | Instance own inherited \<Rightarrow> own @ inherited
      | Plain (JObj ps) \<Rightarrow> ps
      | _ \<Rightarrow> [])"

definition property :: "thrown \<Rightarrow> string \<Rightarrow> jsval" where
  "property e k = (case map_of (properties e) k of None \<Rightarrow> JUndefined | Some v \<Rightarrow> v)"

text \<open>
  The result \<^verbatim>\<open>{status: error.status, error: error.error}\<close> as the pair of the two fields.
  The cast of the caller to the validation type is not checked when the program runs: the
  two properties are read whatever they hold, \<^verbatim>\<open>undefined\<close> when absent.
\<close>

definition formatValidationErrors :: "thrown \<Rightarrow> jsval \<times> jsval" where
  "formatValidationErrors e = (property e ''status'', property e ''error'')"

text \<open>\<^verbatim>\<open>throwError\<close> never returns: it throws the object it builds.\<close>

definition throwError :: "int \<Rightarrow> string \<Rightarrow> thrown + unit" where
  "throwError s m =
     Inl (Plain (JObj [(''status'', JNum s), (''error'', JObj [(''message'', JStr m)])]))"

text \<open>
  \<^verbatim>\<open>formatDate(new Date())\<close> is not part of the handler: the formatted date is a parameter.
  An absent and an empty \<^verbatim>\<open>errorMessage\<close> are both falsy.
\<close>

definition diagnostic :: "string option \<Rightarrow> string" where
  "diagnostic errorMessage =
     (case errorMessage of
        None \<Rightarrow> []
      | Some m \<Rightarrow> if m = [] then [] else ''| '' @ m)"

definition logError :: "string \<Rightarrow> string \<Rightarrow> request \<Rightarrow> string \<Rightarrow> string option \<Rightarrow> effect list" where
  "logError dateFormated label req msg errorMessage =
     [ConsoleError (''['' @ dateFormated @ ''] '' @ label @ '' : '' @ msg @ '' ''
                     @ diagnostic errorMessage),
      LoggerError (''Method: '' @ req_method req @ '', Path: '' @ originalUrl req @ ''  ''
                     @ label @ '' : '' @ msg @ '' '' @ diagnostic errorMessage)]"

text \<open>
  \<^verbatim>\<open>res.status(status).json({ status, error })\<close>: when \<^verbatim>\<open>res.status\<close> throws nothing is
  stored; when \<^verbatim>\<open>res.json\<close> throws the code is stored and nothing is sent.
\<close>

definition sendErrorResponse :: "response \<Rightarrow> jsval \<Rightarrow> jsval \<Rightarrow> run" where
  "sendErrorResponse res status err =
     (case res_status res status of
        Some exn \<Rightarrow> ([], Threw exn)
      | None \<Rightarrow>
          (case res_json res status (JObj [(''status'', status), (''error'', err)]) of
             Some exn \<Rightarrow> ([ResStatus status], Threw exn)
           | None \<Rightarrow>
               ([ResStatus status, ResJson (JObj [(''status'', status), (''error'', err)])],
                Returned)))"

text \<open>What was written before a call comes before what the call writes.\<close>

definition preceded_by :: "effect list \<Rightarrow> run \<Rightarrow> run" where
  "preceded_by written r = (written @ fst r, snd r)"

subsection \<open>handleError\<close>

text \<open>
  The guard of the second branch,
  \<^verbatim>\<open>typeof error === 'object' && error !== null && 'status' in error\<close>.
\<close>

definition typeof_object :: "thrown \<Rightarrow> bool" where
  "typeof_object e =
     (case e of
        PrismaClientKnownRequestError p \<Rightarrow> True
      | NativeError msg own inherited \<Rightarrow> True
      | Instance own inherited \<Rightarrow> True
      | Plain JNull \<Rightarrow> True
      | Plain (JArr xs) \<Rightarrow> True
      | Plain (JObj ps) \<Rightarrow> True
      | _ \<Rightarrow> False)"

definition status_in :: "thrown \<Rightarrow> bool" where
  "status_in e = (''status'' \<in> set (map fst (properties e)))"

definition has_status :: "thrown \<Rightarrow> bool" where
  "has_status e = (typeof_object e \<and> e \<noteq> Plain JNull \<and> status_in e)"

text \<open>
  A template literal writes \<^verbatim>\<open>undefined\<close> as the word; \<^verbatim>\<open>JSON.stringify\<close> gives
  \<^verbatim>\<open>undefined\<close> for an absent payload.
\<close>

definition template_text :: "string option \<Rightarrow> string" where
  "template_text r = (case r of None \<Rightarrow> ''undefined'' | Some s \<Rightarrow> s)"

text \<open>
  The four branches of \<^verbatim>\<open>handleError\<close> in the order of its \<^verbatim>\<open>if\<close> chain: the first guard
  that holds decides. \<open>classify\<close> is the chain of guards, \<open>handleError\<close> the bodies.
\<close>

datatype classified =
    StorageError prisma_error
  | ValidationError
  | RuntimeError string
  | UnknownError

definition classify :: "thrown \<Rightarrow> classified" where
  "classify e =
     (case e of
        PrismaClientKnownRequestError p \<Rightarrow> StorageError p
      | _ \<Rightarrow>
          if has_status e then ValidationError
          else (case e of
                  NativeError msg own inherited \<Rightarrow> RuntimeError msg
                | _ \<Rightarrow> UnknownError))"

definition handleError :: "string \<Rightarrow> thrown \<Rightarrow> request \<Rightarrow> response \<Rightarrow> string option \<Rightarrow> run" where
  "handleError dateFormated e req res errorMessage =
     (case classify e of
        StorageError p \<Rightarrow>
          (let errorPrisma = getPrismaErrorMessage p in
             preceded_by (logError dateFormated ''Erreur Prisma'' req (snd errorPrisma) errorMessage)
               (sendErrorResponse res (JNum (fst errorPrisma)) (JStr (snd errorPrisma))))
      | ValidationError \<Rightarrow>
          (let validationError = formatValidationErrors e in
             (case stringify_value (snd validationError) of
                Inl exn \<Rightarrow> ([], Threw exn)
              | Inr text \<Rightarrow>
                  preceded_by (logError dateFormated ''Erreur de validation'' req (template_text text)
                           errorMessage)
                    (sendErrorResponse res (fst validationError) (snd validationError))))
      | RuntimeError msg \<Rightarrow>
          preceded_by (logError dateFormated ''Erreur serveur'' req msg errorMessage)
            (sendErrorResponse res (JNum 500) (JStr msg))
      | UnknownError \<Rightarrow>
          preceded_by (logError dateFormated ''Erreur inconnue'' req ''Erreur serveur inconnue''
                   errorMessage)
            (sendErrorResponse res (JNum 500) (JStr ''Erreur serveur inconnue'')))"

text \<open>
  Reading a run: the bodies \<^verbatim>\<open>res.json\<close> took and returned from, and the lines given to the
  log sink.
\<close>

fun response_bodies :: "effect list \<Rightarrow> jsval list" where
  "response_bodies [] = []"
| "response_bodies (ResJson b # tr) = b # response_bodies tr"
| "response_bodies (x # tr) = response_bodies tr"

fun log_writes :: "effect list \<Rightarrow> string list" where
  "log_writes [] = []"
| "log_writes (LoggerError l # tr) = l # log_writes tr"
| "log_writes (x # tr) = log_writes tr"

text \<open>The \<^verbatim>\<open>error\<close> field of a response body.\<close>

definition body_error :: "jsval \<Rightarrow> jsval" where
  "body_error b =
     (case b of
        JObj ps \<Rightarrow> (case map_of ps ''error'' of None \<Rightarrow> JUndefined | Some v \<Rightarrow> v)
      | _ \<Rightarrow> JUndefined)"

subsection \<open>The response of the framework\<close>

text \<open>
  The platform takes the status code as a 32-bit integer (\<^verbatim>\<open>statusCode |= 0\<close>) when it
  writes the head of the response, and throws a \<^verbatim>\<open>RangeError\<close> when that integer is
  outside 100 .. 999.
\<close>

definition to_int32 :: "int \<Rightarrow> int" where
  "to_int32 n = (n + 2147483648) mod 4294967296 - 2147483648"

definition status_code_accepted :: "int \<Rightarrow> bool" where
  "status_code_accepted n = (100 \<le> to_int32 n \<and> to_int32 n \<le> 999)"

definition invalid_status_code :: "int \<Rightarrow> thrown" where
  "invalid_status_code n =
     NativeError (''Invalid status code: '' @ show_int n)
       [(''code'', JStr ''ERR_HTTP_INVALID_STATUS_CODE'')] []"

text \<open>
  The response of the framework on which nothing was sent yet, as far as the handler
  uses it. With a number as code, \<^verbatim>\<open>res.status\<close> stores it and returns, and \<^verbatim>\<open>res.json\<close>
  serialises the body, which throws as \<^verbatim>\<open>JSON.stringify\<close> does, and sends it, which
  throws when the platform refuses the code. A code that is not a number is converted
  by the framework and the platform first; that conversion is not modelled: what the
  response does with such a code is the parameter \<open>other\<close>.
\<close>

definition fresh_response :: "response \<Rightarrow> response" where
  "fresh_response other =
     \<lparr>res_status = (\<lambda>c. case c of JNum n \<Rightarrow> None | _ \<Rightarrow> res_status other c),
      res_json = (\<lambda>c body.
         case c of
           JNum n \<Rightarrow>
             (case stringify_value body of
                Inl exn \<Rightarrow> Some exn
              | Inr text \<Rightarrow> if status_code_accepted n then None else Some (invalid_status_code n))
         | _ \<Rightarrow> res_json other c body)\<rparr>"

subsection \<open>The shapes the specification names\<close>

text \<open>
  The validation shape \<^verbatim>\<open>{status, error: [{field, message}]}\<close>: a plain object with a
  numeric \<^verbatim>\<open>status\<close> and, as \<^verbatim>\<open>error\<close>, an array of objects made of a string \<^verbatim>\<open>field\<close> and
  a string \<^verbatim>\<open>message\<close>.
\<close>

fun field_entry :: "jsval \<Rightarrow> bool" where
  "field_entry (JObj [(k1, JStr a), (k2, JStr b)]) =
     ((k1 = ''field'' \<and> k2 = ''message'') \<or> (k1 = ''message'' \<and> k2 = ''field''))"
| "field_entry v = False"

definition field_sequence :: "jsval \<Rightarrow> bool" where
  "field_sequence v = (case v of JArr fs \<Rightarrow> list_all field_entry fs | _ \<Rightarrow> False)"

definition is_number :: "jsval \<Rightarrow> bool" where
  "is_number v = (case v of JNum n \<Rightarrow> True | _ \<Rightarrow> False)"

definition is_string :: "jsval \<Rightarrow> bool" where
  "is_string v = (case v of JStr s \<Rightarrow> True | _ \<Rightarrow> False)"

definition validation_shape :: "thrown \<Rightarrow> bool" where
  "validation_shape e =
     (case e of
        Plain (JObj ps) \<Rightarrow>
          (case map_of ps ''status'' of
             Some st \<Rightarrow>
               is_number st \<and>
               (case map_of ps ''error'' of Some v \<Rightarrow> field_sequence v | None \<Rightarrow> False)
           | None \<Rightarrow> False)
      | _ \<Rightarrow> False)"

text \<open>A value that is neither an object nor an instance of \<^verbatim>\<open>Error\<close>; \<^verbatim>\<open>null\<close> is one.\<close>

definition primitive :: "jsval \<Rightarrow> bool" where
  "primitive v = (case v of JArr xs \<Rightarrow> False | JObj ps \<Rightarrow> False | _ \<Rightarrow> True)"

section \<open>The middleware pipeline (config/apiConfigMiddleware.config.ts)\<close>

text \<open>
  Modelled from the spec: the result of one stage. The middleware functions that
  \<^verbatim>\<open>configureMiddleware\<close> registers are not defined in that file; the specification gives
  their contract: each stage either passes control forward, with the request as it
  leaves it, or terminates the request with a response.
\<close>

record http_response =
  statusCode :: int
  payload :: jsval

datatype stage_result = Next request | End http_response

type_synonym app_settings = "string \<rightharpoonup> string list"

text \<open>
  The stages the specification lists. \<^verbatim>\<open>configureMiddleware\<close> registers a middleware for
  seven of them; for the trusted proxies it stores a setting.
\<close>

datatype stage =
    BodyParsing
  | CrossOrigin
  | SecurityHeaders
  | Compression
  | TrustedProxy
  | RateLimiting
  | Sanitization
  | Logging

text \<open>
  What a run of the pipeline shows: the middleware of a stage is entered, and the two
  calls the last middleware makes itself, \<^verbatim>\<open>rotateLog()\<close> and \<^verbatim>\<open>logger.info(..)\<close>. What
  the middleware built elsewhere write is not listed.
\<close>

datatype pipeline_event = Entered stage | RotateLog | LoggerInfo string

type_synonym middleware = "app_settings \<Rightarrow> request \<Rightarrow> pipeline_event list \<times> stage_result"








subsection \<open>The compression filter\<close>

text \<open>
  \<^verbatim>\<open>req.headers['x-no-compression']\<close> is tested for truthiness: an absent header and a
  header with an empty value are both falsy.
\<close>

definition header_truthy :: "request \<Rightarrow> string \<Rightarrow> bool" where
  "header_truthy req name =
     (case map_of (headers req) name of None \<Rightarrow> False | Some v \<Rightarrow> v \<noteq> [])"

text \<open>
  The regular expression \<^verbatim>\<open>/\.(jpg|jpeg|png|gif|pdf|svg|mp4)$/i\<close>: a dot and one of the
  extensions at the very end of the path, letters compared without case. The flag
  \<^verbatim>\<open>i\<close> folds the ASCII letters only against an ASCII pattern.
\<close>

definition ascii_lower :: "char \<Rightarrow> char" where
  "ascii_lower c =
     (case map_of (zip ''ABCDEFGHIJKLMNOPQRSTUVWXYZ'' ''abcdefghijklmnopqrstuvwxyz'') c of
        None \<Rightarrow> c
      | Some l \<Rightarrow> l)"

definition ends_with :: "string \<Rightarrow> string \<Rightarrow> bool" where
  "ends_with s suf = (length suf \<le> length s \<and> drop (length s - length suf) s = suf)"

definition media_extensions :: "string list" where
  "media_extensions = [''jpg'', ''jpeg'', ''png'', ''gif'', ''pdf'', ''svg'', ''mp4'']"

definition path_matches :: "string \<Rightarrow> bool" where
  "path_matches p = list_ex (\<lambda>ext. ends_with (map ascii_lower p) (''.'' @ ext)) media_extensions"

definition compression_filter :: "request \<Rightarrow> bool" where
  "compression_filter req =
     (if header_truthy req ''x-no-compression'' then False
      else \<not> path_matches (path req))"

text \<open>
  The options given to \<^verbatim>\<open>compression\<close>. The middleware it returns wraps the writers of the
  response and calls \<^verbatim>\<open>next()\<close>; the filter is consulted when the response is written, to
  choose its encoding.
\<close>

record compression_options =
  threshold :: nat
  filter_fn :: "request \<Rightarrow> bool"

definition compression :: "compression_options \<Rightarrow> middleware" where
  "compression opts cfg req = ([], Next req)"

subsection \<open>configureMiddleware\<close>








definition pipeline_order :: "stage list" where
  "pipeline_order =
     [BodyParsing, CrossOrigin, SecurityHeaders, Compression, RateLimiting, Sanitization, Logging]"

section \<open>Sample inputs\<close>

definition sample_request :: request where
  "sample_request =
     \<lparr>req_method = ''POST'', originalUrl = ''/api/users?x=1'', url = ''/api/users?x=1'',
      path = ''/api/users'', headers = []\<rparr>"

text \<open>A response that refuses every code that is not a number.\<close>

definition numbers_only :: response where
  "numbers_only =
     \<lparr>res_status = (\<lambda>c. Some (NativeError ''status code is not a number'' [] [])),
      res_json = (\<lambda>c body. Some (NativeError ''status code is not a number'' [] []))\<rparr>"







section \<open>Facts about the handler\<close>

lemma response_bodies_logError:
  "response_bodies (logError d l req msg em @ tr) = response_bodies tr"
  by (simp add: logError_def)

lemma to_int32_status: "100 \<le> n \<Longrightarrow> n \<le> 999 \<Longrightarrow> to_int32 n = n"
  by (simp add: to_int32_def)

lemma status_code_accepted_range: "100 \<le> n \<Longrightarrow> n \<le> 999 \<Longrightarrow> status_code_accepted n"
  by (simp add: status_code_accepted_def to_int32_status)

lemma sendErrorResponse_accepted:
  assumes "status_code_accepted n" and "stringify_value err = Inr ser"
  shows "sendErrorResponse (fresh_response other) (JNum n) err
     = ([ResStatus (JNum n), ResJson (JObj [(''status'', JNum n), (''error'', err)])], Returned)"
  using assms
  by (cases ser) (simp_all add: sendErrorResponse_def fresh_response_def)

lemma sendErrorResponse_refused:
  assumes "\<not> status_code_accepted n" and "stringify_value err = Inr ser"
  shows "sendErrorResponse (fresh_response other) (JNum n) err
     = ([ResStatus (JNum n)], Threw (invalid_status_code n))"
  using assms
  by (cases ser) (simp_all add: sendErrorResponse_def fresh_response_def)

lemma sendErrorResponse_bodies:
  "b \<in> set (response_bodies (fst (sendErrorResponse res s err)))
     \<Longrightarrow> b = JObj [(''status'', s), (''error'', err)]"
  by (auto simp: sendErrorResponse_def split: option.splits)

lemma classify_status_object:
  "''status'' \<in> fst ` set ps \<Longrightarrow> classify (Plain (JObj ps)) = ValidationError"
  by (simp add: classify_def has_status_def typeof_object_def status_in_def properties_def)

lemma classify_plain_error:
  "''status'' \<notin> fst ` set (own @ inherited)
     \<Longrightarrow> classify (NativeError msg own inherited) = RuntimeError msg"
  by (auto simp: classify_def has_status_def typeof_object_def status_in_def properties_def
      image_Un)

lemma classify_primitive:
  "primitive v \<Longrightarrow> classify (Plain v) = UnknownError"
  by (cases v)
    (simp_all add: primitive_def classify_def has_status_def typeof_object_def status_in_def
      properties_def)

text \<open>
  A call that returns has written one line on the console, one line in the log sink, and
  then one response. A call throws what \<^verbatim>\<open>JSON.stringify\<close> throws on the payload of the
  validation branch, before any write, or what the response object throws, after the two
  log lines and without a body sent.
\<close>

lemma handleError_returned:
  "handleError d e req res em = (tr, Returned) \<Longrightarrow>
     \<exists>c l s b. tr = [ConsoleError c, LoggerError l, ResStatus s, ResJson b]"
  by (auto simp: handleError_def logError_def sendErrorResponse_def preceded_by_def Let_def
      split: classified.splits sum.splits option.splits)

lemma handleError_threw:
  "handleError d e req res em = (tr, Threw x) \<Longrightarrow>
     response_bodies tr = []
     \<and> (tr = [] \<or> (\<exists>c l. tr = [ConsoleError c, LoggerError l])
          \<or> (\<exists>c l s. tr = [ConsoleError c, LoggerError l, ResStatus s]))"
  by (auto simp: handleError_def logError_def sendErrorResponse_def preceded_by_def Let_def
      split: classified.splits sum.splits option.splits)

lemma field_entry_stringify:
  "field_entry v \<Longrightarrow> \<exists>s. stringify_value v = Inr (Some s)"
  by (induction v rule: field_entry.induct) simp_all

lemma field_entries_stringify:
  "list_all field_entry fs \<Longrightarrow> \<exists>parts. stringify_elements fs = Inr parts"
proof (induction fs)
  case Nil
  then show ?case by simp
next
  case (Cons f fs)
  then obtain s parts
    where "stringify_value f = Inr (Some s)" and "stringify_elements fs = Inr parts"
    using field_entry_stringify by fastforce
  then show ?case by simp
qed

section \<open>Classification of the caught value\<close>

text \<open>
  C1, as the code has it. The second branch of \<^verbatim>\<open>handleError\<close> takes every non-null
  object that is not a known storage error and on which \<^verbatim>\<open>'status' in error\<close> holds, that
  is, which owns or inherits a \<^verbatim>\<open>status\<close> property, whatever else it carries: an object
  literal, an instance of a class, or an instance of \<^verbatim>\<open>Error\<close>. A value that neither owns
  nor inherits a \<^verbatim>\<open>status\<close> property is never classified as a validation error.
\<close>

theorem validation_branch_guard:
  "classify e = ValidationError \<longleftrightarrow>
     (\<exists>msg own inherited.
        e = NativeError msg own inherited \<and> ''status'' \<in> fst ` set (own @ inherited))
   \<or> (\<exists>own inherited. e = Instance own inherited \<and> ''status'' \<in> fst ` set (own @ inherited))
   \<or> (\<exists>ps. e = Plain (JObj ps) \<and> ''status'' \<in> fst ` set ps)"
  by (auto simp: classify_def has_status_def typeof_object_def status_in_def properties_def
      split: thrown.splits jsval.splits)

theorem validation_branch_guard_witness:
  "classify (Plain (JObj [(''status'', JNum 400), (''error'', JArr [])])) = ValidationError
   \<and> classify (NativeError ''teapot'' [] [(''status'', JNum 418)]) = ValidationError
   \<and> classify (Instance [(''reason'', JStr ''late'')] [(''status'', JNum 409)]) = ValidationError
   \<and> classify (Plain (JObj [(''code'', JNum 400)])) \<noteq> ValidationError
   \<and> classify (NativeError ''teapot'' [(''code'', JNum 418)] []) \<noteq> ValidationError"
  using validation_branch_guard [of "Plain (JObj [(''status'', JNum 400), (''error'', JArr [])])"]
    validation_branch_guard [of "NativeError ''teapot'' [] [(''status'', JNum 418)]"]
    validation_branch_guard [of "Instance [(''reason'', JStr ''late'')] [(''status'', JNum 409)]"]
    validation_branch_guard [of "Plain (JObj [(''code'', JNum 400)])"]
    validation_branch_guard [of "NativeError ''teapot'' [(''code'', JNum 418)] []"]
  by simp

text \<open>
  C1 as stated fails: a plain object carrying only a \<^verbatim>\<open>status\<close> field, and a native
  error with an added \<^verbatim>\<open>status\<close>, are non-null objects without the validation shape, and
  both are answered by the validation branch.
\<close>

theorem status_only_object_classified_validation:
  "typeof_object (Plain (JObj [(''status'', JNum 400)]))
   \<and> Plain (JObj [(''status'', JNum 400)]) \<noteq> Plain JNull
   \<and> \<not> validation_shape (Plain (JObj [(''status'', JNum 400)]))
   \<and> classify (Plain (JObj [(''status'', JNum 400)])) = ValidationError
   \<and> \<not> validation_shape (NativeError ''boom'' [(''status'', JNum 503)] [])
   \<and> classify (NativeError ''boom'' [(''status'', JNum 503)] []) = ValidationError
   \<and> response_bodies
        (fst (handleError ''02/11/2026'' (Plain (JObj [(''status'', JNum 400)])) sample_request
           (fresh_response numbers_only) None))
       = [JObj [(''status'', JNum 400), (''error'', JUndefined)]]"
  by (simp add: validation_shape_def classify_def has_status_def typeof_object_def status_in_def
      properties_def handleError_def formatValidationErrors_def property_def logError_def
      sendErrorResponse_def preceded_by_def fresh_response_def status_code_accepted_def
      to_int32_def)

text \<open>
  C2, as the code has it. For every integer \<open>s\<close> and string \<open>m\<close>, \<^verbatim>\<open>throwError(s, m)\<close>
  throws the object \<^verbatim>\<open>{status: s, error: {message: m}}\<close>, which the handler takes in its
  validation branch. When \<open>s\<close> is a status code the response accepts (100 to 999), the
  handler logs the serialised payload, answers with status \<open>s\<close> and the body
  \<^verbatim>\<open>{status: s, error: {message: m}}\<close>, and returns: the \<^verbatim>\<open>error\<close> field is one object,
  neither a string nor an array.
\<close>

theorem throwError_handled_as_validation:
  "throwError s m
     = Inl (Plain (JObj [(''status'', JNum s), (''error'', JObj [(''message'', JStr m)])]))
   \<and> classify (Plain (JObj [(''status'', JNum s), (''error'', JObj [(''message'', JStr m)])]))
       = ValidationError
   \<and> (100 \<le> s \<and> s \<le> 999 \<longrightarrow>
        handleError d
          (Plain (JObj [(''status'', JNum s), (''error'', JObj [(''message'', JStr m)])])) req
          (fresh_response other) em
         = (logError d ''Erreur de validation'' req
              (''{'' @ quote ''message'' @ '':'' @ quote m @ ''}'') em
              @ [ResStatus (JNum s),
                 ResJson (JObj [(''status'', JNum s), (''error'', JObj [(''message'', JStr m)])])],
            Returned))
   \<and> \<not> is_string (JObj [(''message'', JStr m)])
   \<and> \<not> field_sequence (JObj [(''message'', JStr m)])"
proof -
  have payload: "stringify_value (JObj [(''message'', JStr m)])
      = Inr (Some (''{'' @ quote ''message'' @ '':'' @ quote m @ ''}''))"
    by simp
  have cl: "classify (Plain (JObj [(''status'', JNum s),
      (''error'', JObj [(''message'', JStr m)])])) = ValidationError"
    by (simp add: classify_status_object)
  have run: "handleError d
          (Plain (JObj [(''status'', JNum s), (''error'', JObj [(''message'', JStr m)])])) req
          (fresh_response other) em
         = (logError d ''Erreur de validation'' req
              (''{'' @ quote ''message'' @ '':'' @ quote m @ ''}'') em
              @ [ResStatus (JNum s),
                 ResJson (JObj [(''status'', JNum s), (''error'', JObj [(''message'', JStr m)])])],
            Returned)"
    if "100 \<le> s" and "s \<le> 999"
  proof -
    have ok: "status_code_accepted s"
      using that by (rule status_code_accepted_range)
    show ?thesis
      by (simp add: cl handleError_def formatValidationErrors_def property_def
          properties_def payload sendErrorResponse_accepted [OF ok payload] preceded_by_def
          template_text_def del: stringify_value.simps)
  qed
  from cl run show ?thesis
    by (simp add: throwError_def is_string_def field_sequence_def)
qed

theorem throwError_handled_as_validation_witness:
  "(100::int) \<le> 404 \<and> (404::int) \<le> 999
   \<and> response_bodies (fst (handleError ''02/11/2026''
       (Plain (JObj [(''status'', JNum 404), (''error'', JObj [(''message'', JStr ''Not found'')])]))
       sample_request (fresh_response numbers_only) None))
     = [JObj [(''status'', JNum 404), (''error'', JObj [(''message'', JStr ''Not found'')])]]"
  using throwError_handled_as_validation [of 404 "''Not found''" "''02/11/2026''"
      sample_request numbers_only None]
  by (simp add: response_bodies_logError)

text \<open>
  C2 as stated fails: for the integer 1000 the handler stores the status, the response
  refuses to send under it and throws, no body is sent and the handler throws.
\<close>

theorem throwError_status_refused:
  "throwError 1000 ''Too large''
     = Inl (Plain (JObj [(''status'', JNum 1000), (''error'', JObj [(''message'', JStr ''Too large'')])]))
   \<and> handleError ''02/11/2026''
        (Plain (JObj [(''status'', JNum 1000), (''error'', JObj [(''message'', JStr ''Too large'')])]))
        sample_request (fresh_response numbers_only) None
       = (logError ''02/11/2026'' ''Erreur de validation'' sample_request
            (''{'' @ quote ''message'' @ '':'' @ quote ''Too large'' @ ''}'') None
            @ [ResStatus (JNum 1000)],
          Threw (invalid_status_code 1000))
   \<and> response_bodies (fst (handleError ''02/11/2026''
        (Plain (JObj [(''status'', JNum 1000), (''error'', JObj [(''message'', JStr ''Too large'')])]))
        sample_request (fresh_response numbers_only) None)) = []"
proof -
  have no: "\<not> status_code_accepted 1000"
    by (simp add: status_code_accepted_def to_int32_def)
  have payload: "stringify_value (JObj [(''message'', JStr ''Too large'')])
      = Inr (Some (''{'' @ quote ''message'' @ '':'' @ quote ''Too large'' @ ''}''))"
    by simp
  have cl: "classify (Plain (JObj [(''status'', JNum 1000),
      (''error'', JObj [(''message'', JStr ''Too large'')])])) = ValidationError"
    by (simp add: classify_status_object)
  show ?thesis
    by (simp add: throwError_def cl handleError_def formatValidationErrors_def property_def
        properties_def payload sendErrorResponse_refused [OF no payload] preceded_by_def
        template_text_def response_bodies_logError del: stringify_value.simps)
qed

section \<open>The shape of the response\<close>

text \<open>
  C3, as the code has it. Every body the handler writes is \<^verbatim>\<open>{status, error}\<close>. In the
  storage, runtime and unknown branches \<^verbatim>\<open>error\<close> is one string. In the validation
  branch \<^verbatim>\<open>error\<close> is the \<^verbatim>\<open>error\<close> property of the caught object, unchanged
  (\<^verbatim>\<open>undefined\<close> when it has none), and \<^verbatim>\<open>status\<close> its \<^verbatim>\<open>status\<close> property: a sequence of
  field entries when that property is one. A sequence of field entries is written in the
  validation branch only.
\<close>

theorem response_error_by_classification:
  assumes "b \<in> set (response_bodies (fst (handleError d e req res em)))"
  shows "(\<exists>s v. b = JObj [(''status'', s), (''error'', v)])
       \<and> (classify e \<noteq> ValidationError \<longrightarrow> is_string (body_error b))
       \<and> (classify e = ValidationError \<longrightarrow>
            b = JObj [(''status'', property e ''status''), (''error'', property e ''error'')])
       \<and> (field_sequence (body_error b) \<longrightarrow> classify e = ValidationError)"
  using assms
  by (auto simp: handleError_def formatValidationErrors_def Let_def body_error_def is_string_def
      field_sequence_def response_bodies_logError preceded_by_def
      dest!: sendErrorResponse_bodies split: classified.splits sum.splits)

theorem response_error_by_classification_witness:
  "JObj [(''status'', JNum 500), (''error'', JStr ''disk full'')]
     \<in> set (response_bodies (fst (handleError ''02/11/2026'' (NativeError ''disk full'' [] [])
          sample_request (fresh_response numbers_only) None)))
   \<and> is_string (body_error (JObj [(''status'', JNum 500), (''error'', JStr ''disk full'')]))"
proof -
  have cl: "classify (NativeError ''disk full'' [] []) = RuntimeError ''disk full''"
    by (simp add: classify_plain_error)
  have ok: "status_code_accepted 500"
    by (simp add: status_code_accepted_range)
  have ser: "stringify_value (JStr ''disk full'') = Inr (Some (quote ''disk full''))"
    by simp
  have mem: "JObj [(''status'', JNum 500), (''error'', JStr ''disk full'')]
     \<in> set (response_bodies (fst (handleError ''02/11/2026'' (NativeError ''disk full'' [] [])
          sample_request (fresh_response numbers_only) None)))"
    by (simp add: handleError_def cl preceded_by_def response_bodies_logError
        sendErrorResponse_accepted [OF ok ser])
  from response_error_by_classification [OF mem] cl mem show ?thesis
    by simp
qed

text \<open>
  C3 as stated fails: the object thrown by \<^verbatim>\<open>throwError(404, "Not found")\<close> is classified
  as a validation error, and the \<^verbatim>\<open>error\<close> field of the response is the single object
  \<^verbatim>\<open>{message: "Not found"}\<close>, not a sequence of field entries.
\<close>

theorem throwError_response_not_field_sequence:
  "throwError 404 ''Not found''
     = Inl (Plain (JObj [(''status'', JNum 404), (''error'', JObj [(''message'', JStr ''Not found'')])]))
   \<and> classify (Plain (JObj [(''status'', JNum 404),
        (''error'', JObj [(''message'', JStr ''Not found'')])])) = ValidationError
   \<and> map body_error (response_bodies (fst (handleError ''02/11/2026''
        (Plain (JObj [(''status'', JNum 404), (''error'', JObj [(''message'', JStr ''Not found'')])]))
        sample_request (fresh_response numbers_only) None)))
       = [JObj [(''message'', JStr ''Not found'')]]
   \<and> \<not> field_sequence (JObj [(''message'', JStr ''Not found'')])"
proof -
  have ok: "status_code_accepted 404"
    by (simp add: status_code_accepted_range)
  have payload: "stringify_value (JObj [(''message'', JStr ''Not found'')])
      = Inr (Some (''{'' @ quote ''message'' @ '':'' @ quote ''Not found'' @ ''}''))"
    by simp
  have cl: "classify (Plain (JObj [(''status'', JNum 404),
      (''error'', JObj [(''message'', JStr ''Not found'')])])) = ValidationError"
    by (simp add: classify_status_object)
  show ?thesis
    by (simp add: throwError_def cl handleError_def formatValidationErrors_def property_def
        properties_def payload sendErrorResponse_accepted [OF ok payload] preceded_by_def
        response_bodies_logError body_error_def field_sequence_def
        del: stringify_value.simps)
qed

section \<open>Storage errors\<close>

text \<open>
  C4, as the code has it. For a known storage error the handler answers with the status
  and the message of \<^verbatim>\<open>getPrismaErrorMessage\<close>. For the code P2002 the status is 400 and
  the message is the unique-constraint sentence with \<^verbatim>\<open>meta.target\<close> in it: a name as it
  is, a list of fields joined by commas; two targets give the same message only when
  they are written the same. The word \<^verbatim>\<open>inconnu\<close> takes the place of the field when the
  error has no \<^verbatim>\<open>meta\<close>, no \<^verbatim>\<open>target\<close>, or the empty string as target. For P2003 the
  status is 400, for P2025 it is 404, for every other code it is 500 with the generic
  storage message.
\<close>

theorem storage_error_translation:
  "(code p = ''P2002'' \<longrightarrow>
      (\<forall>m f. meta p = Some m \<and> map_of m ''target'' = Some (MetaStr f) \<and> f \<noteq> [] \<longrightarrow>
          getPrismaErrorMessage p
            = (400, ''Erreur : le champ '' @ f @ '' doit '' @ e_circ
                 @ ''tre unique. La valeur fournie est d'' @ e_acute @ ''j'' @ a_grave
                 @ '' utilis'' @ e_acute @ ''e.''))
    \<and> (\<forall>m fs. meta p = Some m \<and> map_of m ''target'' = Some (MetaList fs) \<longrightarrow>
          getPrismaErrorMessage p
            = (400, ''Erreur : le champ '' @ join '','' fs @ '' doit '' @ e_circ
                 @ ''tre unique. La valeur fournie est d'' @ e_acute @ ''j'' @ a_grave
                 @ '' utilis'' @ e_acute @ ''e.''))
    \<and> (meta p = None
         \<or> (\<exists>m. meta p = Some m \<and> map_of m ''target'' \<in> {None, Some (MetaStr [])}) \<longrightarrow>
          getPrismaErrorMessage p
            = (400, ''Erreur : le champ inconnu doit '' @ e_circ
                 @ ''tre unique. La valeur fournie est d'' @ e_acute @ ''j'' @ a_grave
                 @ '' utilis'' @ e_acute @ ''e.'')))
   \<and> (unique_message f1 = unique_message f2 \<longleftrightarrow> f1 = f2)
   \<and> (code p = ''P2003'' \<longrightarrow> getPrismaErrorMessage p = (400, foreign_key_message))
   \<and> (code p = ''P2025'' \<longrightarrow> getPrismaErrorMessage p = (404, not_found_message))
   \<and> (code p \<notin> {''P2002'', ''P2003'', ''P2025''} \<longrightarrow>
        getPrismaErrorMessage p = (500, unknown_prisma_message))
   \<and> classify (PrismaClientKnownRequestError p) = StorageError p
   \<and> handleError d (PrismaClientKnownRequestError p) req (fresh_response other) em
       = (logError d ''Erreur Prisma'' req (snd (getPrismaErrorMessage p)) em
            @ [ResStatus (JNum (fst (getPrismaErrorMessage p))),
               ResJson (JObj [(''status'', JNum (fst (getPrismaErrorMessage p))),
                              (''error'', JStr (snd (getPrismaErrorMessage p)))])],
          Returned)"
proof -
  have ok: "status_code_accepted (fst (getPrismaErrorMessage p))"
    by (simp add: getPrismaErrorMessage_def status_code_accepted_range)
  have ser: "stringify_value (JStr (snd (getPrismaErrorMessage p)))
      = Inr (Some (quote (snd (getPrismaErrorMessage p))))"
    by simp
  have run: "handleError d (PrismaClientKnownRequestError p) req (fresh_response other) em
       = (logError d ''Erreur Prisma'' req (snd (getPrismaErrorMessage p)) em
            @ [ResStatus (JNum (fst (getPrismaErrorMessage p))),
               ResJson (JObj [(''status'', JNum (fst (getPrismaErrorMessage p))),
                              (''error'', JStr (snd (getPrismaErrorMessage p)))])],
          Returned)"
    by (simp add: handleError_def classify_def Let_def preceded_by_def
        sendErrorResponse_accepted [OF ok ser])
  have texts: "(code p = ''P2002'' \<longrightarrow>
      (\<forall>m f. meta p = Some m \<and> map_of m ''target'' = Some (MetaStr f) \<and> f \<noteq> [] \<longrightarrow>
          getPrismaErrorMessage p
            = (400, ''Erreur : le champ '' @ f @ '' doit '' @ e_circ
                 @ ''tre unique. La valeur fournie est d'' @ e_acute @ ''j'' @ a_grave
                 @ '' utilis'' @ e_acute @ ''e.''))
    \<and> (\<forall>m fs. meta p = Some m \<and> map_of m ''target'' = Some (MetaList fs) \<longrightarrow>
          getPrismaErrorMessage p
            = (400, ''Erreur : le champ '' @ join '','' fs @ '' doit '' @ e_circ
                 @ ''tre unique. La valeur fournie est d'' @ e_acute @ ''j'' @ a_grave
                 @ '' utilis'' @ e_acute @ ''e.''))
    \<and> (meta p = None
         \<or> (\<exists>m. meta p = Some m \<and> map_of m ''target'' \<in> {None, Some (MetaStr [])}) \<longrightarrow>
          getPrismaErrorMessage p
            = (400, ''Erreur : le champ inconnu doit '' @ e_circ
                 @ ''tre unique. La valeur fournie est d'' @ e_acute @ ''j'' @ a_grave
                 @ '' utilis'' @ e_acute @ ''e.'')))"
    by (auto simp: getPrismaErrorMessage_def unique_field_def meta_target_def truthy_meta_def
        meta_to_string_def unique_message_def)
  have inj: "unique_message f1 = unique_message f2 \<longleftrightarrow> f1 = f2"
    by (simp add: unique_message_def)
  have others: "(code p = ''P2003'' \<longrightarrow> getPrismaErrorMessage p = (400, foreign_key_message))
   \<and> (code p = ''P2025'' \<longrightarrow> getPrismaErrorMessage p = (404, not_found_message))
   \<and> (code p \<notin> {''P2002'', ''P2003'', ''P2025''} \<longrightarrow>
        getPrismaErrorMessage p = (500, unknown_prisma_message))
   \<and> classify (PrismaClientKnownRequestError p) = StorageError p"
    by (simp add: getPrismaErrorMessage_def classify_def)
  from texts inj others run show ?thesis
    by blast
qed

theorem storage_error_translation_witness:
  "getPrismaErrorMessage
     \<lparr>code = ''P2002'', meta = Some [(''modelName'', MetaStr ''User''), (''target'', MetaList [''email''])],
      prisma_message = ''Unique constraint failed''\<rparr>
     = (400, ''Erreur : le champ email doit '' @ e_circ
          @ ''tre unique. La valeur fournie est d'' @ e_acute @ ''j'' @ a_grave
          @ '' utilis'' @ e_acute @ ''e.'')
   \<and> getPrismaErrorMessage \<lparr>code = ''P2002'', meta = None, prisma_message = ''Unique constraint failed''\<rparr>
     = (400, ''Erreur : le champ inconnu doit '' @ e_circ
          @ ''tre unique. La valeur fournie est d'' @ e_acute @ ''j'' @ a_grave
          @ '' utilis'' @ e_acute @ ''e.'')
   \<and> getPrismaErrorMessage \<lparr>code = ''P2025'', meta = None, prisma_message = ''Record not found''\<rparr>
     = (404, not_found_message)
   \<and> getPrismaErrorMessage \<lparr>code = ''P2010'', meta = None, prisma_message = ''Raw query failed''\<rparr>
     = (500, unknown_prisma_message)"
  using
    storage_error_translation [of "\<lparr>code = ''P2002'',
        meta = Some [(''modelName'', MetaStr ''User''), (''target'', MetaList [''email''])],
        prisma_message = ''Unique constraint failed''\<rparr>" "''a''" "''b''" "''02/11/2026''"
        sample_request numbers_only None]
    storage_error_translation [of "\<lparr>code = ''P2002'', meta = None,
        prisma_message = ''Unique constraint failed''\<rparr>" "''a''" "''b''" "''02/11/2026''"
        sample_request numbers_only None]
    storage_error_translation [of "\<lparr>code = ''P2025'', meta = None,
        prisma_message = ''Record not found''\<rparr>" "''a''" "''b''" "''02/11/2026''"
        sample_request numbers_only None]
    storage_error_translation [of "\<lparr>code = ''P2010'', meta = None,
        prisma_message = ''Raw query failed''\<rparr>" "''a''" "''b''" "''02/11/2026''"
        sample_request numbers_only None]
  by simp

text \<open>
  C4 as stated fails: for a unique-constraint error whose target is the empty list of
  fields, no field can be named, and the message does not fall back to \<^verbatim>\<open>inconnu\<close>: the
  empty list is truthy and is written as the empty string.
\<close>

theorem empty_target_list_no_fallback:
  "getPrismaErrorMessage
     \<lparr>code = ''P2002'', meta = Some [(''target'', MetaList [])],
      prisma_message = ''Unique constraint failed''\<rparr>
     = (400, ''Erreur : le champ  doit '' @ e_circ
          @ ''tre unique. La valeur fournie est d'' @ e_acute @ ''j'' @ a_grave
          @ '' utilis'' @ e_acute @ ''e.'')
   \<and> snd (getPrismaErrorMessage
       \<lparr>code = ''P2002'', meta = Some [(''target'', MetaList [])],
        prisma_message = ''Unique constraint failed''\<rparr>) \<noteq> unique_message ''inconnu''"
  by (simp add: getPrismaErrorMessage_def unique_field_def meta_target_def truthy_meta_def
      meta_to_string_def unique_message_def)

section \<open>Runtime and unknown errors\<close>

text \<open>
  C5, as the code has it. For every instance of \<^verbatim>\<open>Error\<close> that is not a known storage
  error and neither owns nor inherits a \<^verbatim>\<open>status\<close> property, the handler answers with
  status 500 and the message of the error, and returns.
\<close>

theorem native_error_without_status:
  assumes "''status'' \<notin> fst ` set (own @ inherited)"
  shows "handleError d (NativeError msg own inherited) req (fresh_response other) em
     = (logError d ''Erreur serveur'' req msg em
          @ [ResStatus (JNum 500), ResJson (JObj [(''status'', JNum 500), (''error'', JStr msg)])],
        Returned)"
proof -
  have ok: "status_code_accepted 500"
    by (simp add: status_code_accepted_range)
  have ser: "stringify_value (JStr msg) = Inr (Some (quote msg))"
    by simp
  from assms show ?thesis
    by (simp add: classify_plain_error handleError_def preceded_by_def
        sendErrorResponse_accepted [OF ok ser])
qed

theorem native_error_without_status_witness:
  "''status'' \<notin> fst ` set ([(''cause'', JStr ''timeout'')] @ [(''retryable'', JBool True)])
   \<and> response_bodies (fst (handleError ''02/11/2026''
        (NativeError ''connection lost'' [(''cause'', JStr ''timeout'')] [(''retryable'', JBool True)])
        sample_request (fresh_response numbers_only) None))
     = [JObj [(''status'', JNum 500), (''error'', JStr ''connection lost'')]]"
proof -
  have h: "''status'' \<notin> fst ` set ([(''cause'', JStr ''timeout'')] @ [(''retryable'', JBool True)])"
    by simp
  from native_error_without_status [OF h, of "''02/11/2026''" "''connection lost''" sample_request
      numbers_only None] h
  show ?thesis
    by (simp add: response_bodies_logError)
qed

text \<open>
  C5 as stated fails: a native error that carries a \<^verbatim>\<open>status\<close> property (as the errors of
  HTTP libraries do) is taken by the validation branch, which comes first: the response
  has that status and no message.
\<close>

theorem native_error_with_status_not_500:
  "classify (NativeError ''Not Found'' [(''status'', JNum 404)] []) = ValidationError
   \<and> handleError ''02/11/2026'' (NativeError ''Not Found'' [(''status'', JNum 404)] [])
        sample_request (fresh_response numbers_only) None
     = (logError ''02/11/2026'' ''Erreur de validation'' sample_request ''undefined'' None
          @ [ResStatus (JNum 404), ResJson (JObj [(''status'', JNum 404), (''error'', JUndefined)])],
        Returned)
   \<and> JObj [(''status'', JNum 404), (''error'', JUndefined)]
       \<noteq> JObj [(''status'', JNum 500), (''error'', JStr ''Not Found'')]"
  by (simp add: classify_def has_status_def typeof_object_def status_in_def
      properties_def handleError_def formatValidationErrors_def property_def
      sendErrorResponse_def template_text_def preceded_by_def fresh_response_def
      status_code_accepted_def to_int32_def)

text \<open>
  C6. For every value that is neither an object nor an error (a string, a number,
  \<^verbatim>\<open>null\<close>, \<^verbatim>\<open>undefined\<close>, a boolean), the handler answers with status 500 and the fixed
  message, and returns; whatever the response object, the run does not depend on the
  value, so two such values get the same response and the same log lines, and nothing of
  the value is echoed.
\<close>

theorem unrecognized_value_generic_response:
  assumes "primitive v" and "primitive w"
  shows "handleError d (Plain v) req (fresh_response other) em
     = (logError d ''Erreur inconnue'' req ''Erreur serveur inconnue'' em
          @ [ResStatus (JNum 500),
             ResJson (JObj [(''status'', JNum 500), (''error'', JStr ''Erreur serveur inconnue'')])],
        Returned)
   \<and> handleError d (Plain v) req res em = handleError d (Plain w) req res em"
proof -
  have ok: "status_code_accepted 500"
    by (simp add: status_code_accepted_range)
  have ser: "stringify_value (JStr ''Erreur serveur inconnue'')
      = Inr (Some (quote ''Erreur serveur inconnue''))"
    by simp
  from assms show ?thesis
    by (simp add: classify_primitive handleError_def preceded_by_def
        sendErrorResponse_accepted [OF ok ser])
qed

theorem unrecognized_value_generic_response_witness:
  "primitive (JStr ''boom'') \<and> primitive JNull
   \<and> response_bodies (fst (handleError ''02/11/2026'' (Plain (JStr ''boom'')) sample_request
        (fresh_response numbers_only) None))
       = [JObj [(''status'', JNum 500), (''error'', JStr ''Erreur serveur inconnue'')]]
   \<and> handleError ''02/11/2026'' (Plain (JStr ''boom'')) sample_request (fresh_response numbers_only) None
       = handleError ''02/11/2026'' (Plain JNull) sample_request (fresh_response numbers_only) None"
proof -
  have h1: "primitive (JStr ''boom'')" and h2: "primitive JNull"
    by (simp_all add: primitive_def)
  note run = unrecognized_value_generic_response [OF h1 h2, of "''02/11/2026''" sample_request
      numbers_only None "fresh_response numbers_only"]
  from run have same: "handleError ''02/11/2026'' (Plain (JStr ''boom'')) sample_request
        (fresh_response numbers_only) None
      = handleError ''02/11/2026'' (Plain JNull) sample_request (fresh_response numbers_only) None"
    by (rule conjunct2)
  from run have "handleError ''02/11/2026'' (Plain (JStr ''boom'')) sample_request
        (fresh_response numbers_only) None
      = (logError ''02/11/2026'' ''Erreur inconnue'' sample_request ''Erreur serveur inconnue'' None
          @ [ResStatus (JNum 500),
             ResJson (JObj [(''status'', JNum 500), (''error'', JStr ''Erreur serveur inconnue'')])],
        Returned)"
    by (rule conjunct1)
  then have "response_bodies (fst (handleError ''02/11/2026'' (Plain (JStr ''boom''))
        sample_request (fresh_response numbers_only) None))
      = [JObj [(''status'', JNum 500), (''error'', JStr ''Erreur serveur inconnue'')]]"
    by (simp add: response_bodies_logError)
  with same h1 h2 show ?thesis
    by blast
qed

section \<open>Validation errors\<close>

text \<open>
  C7, as the code has it. For every input of the validation shape
  \<^verbatim>\<open>{status, error: [{field, message}, ..]}\<close>, whatever the response object, every body
  the handler sends carries the status of the input and, as \<^verbatim>\<open>error\<close>, the array of the
  input: the value read from the property is the value written, no entry is copied,
  dropped, reordered or rewritten. When the status is a status code the response accepts
  (100 to 999), the handler sends that body and returns.
\<close>

theorem validation_payload_passed_through:
  assumes "validation_shape e"
    and "property e ''status'' = JNum s"
  shows "\<exists>fs. e \<noteq> Plain JNull
           \<and> property e ''error'' = JArr fs
           \<and> (\<forall>b \<in> set (response_bodies (fst (handleError d e req res em))).
                 b = JObj [(''status'', JNum s), (''error'', JArr fs)])
           \<and> (100 \<le> s \<and> s \<le> 999 \<longrightarrow>
                (\<exists>line. handleError d e req (fresh_response other) em
                   = (logError d ''Erreur de validation'' req line em
                        @ [ResStatus (JNum s),
                           ResJson (JObj [(''status'', JNum s), (''error'', JArr fs)])],
                      Returned)))"
proof -
  from assms(1) obtain ps s' fs where e: "e = Plain (JObj ps)"
    and st: "map_of ps ''status'' = Some (JNum s')"
    and er: "map_of ps ''error'' = Some (JArr fs)"
    and fs: "list_all field_entry fs"
    by (auto simp: validation_shape_def field_sequence_def is_number_def
        split: thrown.splits jsval.splits option.splits)
  from st assms(2) have s: "s' = s"
    by (simp add: e property_def properties_def)
  from st have "''status'' \<in> fst ` set ps"
    by (metis map_of_eq_None_iff option.distinct(1))
  then have cl: "classify e = ValidationError"
    by (simp add: e classify_status_object)
  from fs obtain parts where "stringify_elements fs = Inr parts"
    using field_entries_stringify by blast
  then have ser: "stringify_value (JArr fs) = Inr (Some (''['' @ join '','' parts @ '']''))"
    by simp
  have pe: "property e ''error'' = JArr fs" and ps: "property e ''status'' = JNum s"
    using st er s by (simp_all add: e property_def properties_def)
  have run: "\<exists>line. handleError d e req (fresh_response other) em
      = (logError d ''Erreur de validation'' req line em
           @ [ResStatus (JNum s), ResJson (JObj [(''status'', JNum s), (''error'', JArr fs)])],
         Returned)"
    if "100 \<le> s" and "s \<le> 999"
  proof -
    have ok: "status_code_accepted s"
      using that by (rule status_code_accepted_range)
    have "handleError d e req (fresh_response other) em
      = (logError d ''Erreur de validation'' req (''['' @ join '','' parts @ '']'') em
           @ [ResStatus (JNum s), ResJson (JObj [(''status'', JNum s), (''error'', JArr fs)])],
         Returned)"
      by (simp add: handleError_def cl formatValidationErrors_def pe ps ser preceded_by_def
          sendErrorResponse_accepted [OF ok ser] template_text_def del: stringify_value.simps)
    then show ?thesis
      by (rule exI [of _ "''['' @ join '','' parts @ '']''"])
  qed
  have all: "\<forall>b \<in> set (response_bodies (fst (handleError d e req res em))).
      b = JObj [(''status'', JNum s), (''error'', JArr fs)]"
    by (auto simp: handleError_def cl formatValidationErrors_def pe ps ser preceded_by_def
        response_bodies_logError dest!: sendErrorResponse_bodies
        simp del: stringify_value.simps)
  from run have accepted: "100 \<le> s \<and> s \<le> 999 \<longrightarrow>
      (\<exists>line. handleError d e req (fresh_response other) em
         = (logError d ''Erreur de validation'' req line em
              @ [ResStatus (JNum s), ResJson (JObj [(''status'', JNum s), (''error'', JArr fs)])],
            Returned))"
    by (intro impI) (elim conjE)
  have "e \<noteq> Plain JNull"
    by (simp add: e)
  then have "e \<noteq> Plain JNull
           \<and> property e ''error'' = JArr fs
           \<and> (\<forall>b \<in> set (response_bodies (fst (handleError d e req res em))).
                 b = JObj [(''status'', JNum s), (''error'', JArr fs)])
           \<and> (100 \<le> s \<and> s \<le> 999 \<longrightarrow>
                (\<exists>line. handleError d e req (fresh_response other) em
                   = (logError d ''Erreur de validation'' req line em
                        @ [ResStatus (JNum s),
                           ResJson (JObj [(''status'', JNum s), (''error'', JArr fs)])],
                      Returned)))"
    using pe all accepted by (intro conjI)
  then show ?thesis
    by (rule exI [of _ fs])
qed

theorem validation_payload_passed_through_witness:
  "validation_shape (Plain (JObj [(''status'', JNum 400), (''error'',
       JArr [JObj [(''field'', JStr ''email''), (''message'', JStr ''required'')],
             JObj [(''field'', JStr ''age''), (''message'', JStr ''must be a number'')]])]))
   \<and> response_bodies (fst (handleError ''02/11/2026''
       (Plain (JObj [(''status'', JNum 400), (''error'',
          JArr [JObj [(''field'', JStr ''email''), (''message'', JStr ''required'')],
                JObj [(''field'', JStr ''age''), (''message'', JStr ''must be a number'')]])]))
       sample_request (fresh_response numbers_only) None))
     = [JObj [(''status'', JNum 400), (''error'',
          JArr [JObj [(''field'', JStr ''email''), (''message'', JStr ''required'')],
                JObj [(''field'', JStr ''age''), (''message'', JStr ''must be a number'')]])]]"
proof -
  let ?e = "Plain (JObj [(''status'', JNum 400), (''error'',
       JArr [JObj [(''field'', JStr ''email''), (''message'', JStr ''required'')],
             JObj [(''field'', JStr ''age''), (''message'', JStr ''must be a number'')]])])"
  have h: "validation_shape ?e"
    by (simp add: validation_shape_def is_number_def field_sequence_def)
  have st: "property ?e ''status'' = JNum 400"
    by (simp add: property_def properties_def)
  from validation_payload_passed_through [OF h st, of "''02/11/2026''" sample_request
      "fresh_response numbers_only" None numbers_only]
  obtain fs where pe: "property ?e ''error'' = JArr fs"
    and accepted: "(100::int) \<le> 400 \<and> (400::int) \<le> 999 \<longrightarrow>
      (\<exists>line. handleError ''02/11/2026'' ?e sample_request (fresh_response numbers_only) None
           = (logError ''02/11/2026'' ''Erreur de validation'' sample_request line None
                @ [ResStatus (JNum 400), ResJson (JObj [(''status'', JNum 400), (''error'', JArr fs)])],
              Returned))"
    by (elim exE conjE)
  have "(100::int) \<le> 400 \<and> (400::int) \<le> 999"
    by simp
  with accepted obtain line
    where run: "handleError ''02/11/2026'' ?e sample_request (fresh_response numbers_only) None
           = (logError ''02/11/2026'' ''Erreur de validation'' sample_request line None
                @ [ResStatus (JNum 400), ResJson (JObj [(''status'', JNum 400), (''error'', JArr fs)])],
              Returned)"
    by (elim impE exE)
  from pe have fs: "fs = [JObj [(''field'', JStr ''email''), (''message'', JStr ''required'')],
             JObj [(''field'', JStr ''age''), (''message'', JStr ''must be a number'')]]"
    by (simp add: property_def properties_def)
  have "response_bodies (fst (handleError ''02/11/2026'' ?e sample_request
        (fresh_response numbers_only) None))
      = [JObj [(''status'', JNum 400), (''error'', JArr fs)]]"
    unfolding run by (simp add: response_bodies_logError)
  with h show ?thesis
    unfolding fs by (intro conjI)
qed

text \<open>
  C7 as stated fails: the object \<^verbatim>\<open>{status: 1000, error: []}\<close> has the validation shape;
  the response refuses to send under the status 1000 and throws, so that no response
  carries the status and the array of the input, and the handler throws.
\<close>

theorem validation_status_refused:
  "validation_shape (Plain (JObj [(''status'', JNum 1000), (''error'', JArr [])]))
   \<and> handleError ''02/11/2026'' (Plain (JObj [(''status'', JNum 1000), (''error'', JArr [])]))
        sample_request (fresh_response numbers_only) None
       = (logError ''02/11/2026'' ''Erreur de validation'' sample_request ''[]'' None
            @ [ResStatus (JNum 1000)],
          Threw (invalid_status_code 1000))
   \<and> response_bodies (fst (handleError ''02/11/2026''
        (Plain (JObj [(''status'', JNum 1000), (''error'', JArr [])]))
        sample_request (fresh_response numbers_only) None)) = []"
proof -
  have no: "\<not> status_code_accepted 1000"
    by (simp add: status_code_accepted_def to_int32_def)
  have ser: "stringify_value (JArr []) = Inr (Some ''[]'')"
    by simp
  have cl: "classify (Plain (JObj [(''status'', JNum 1000), (''error'', JArr [])]))
      = ValidationError"
    by (simp add: classify_status_object)
  show ?thesis
    by (simp add: validation_shape_def is_number_def field_sequence_def cl handleError_def
        formatValidationErrors_def property_def properties_def ser
        sendErrorResponse_refused [OF no ser] preceded_by_def template_text_def
        response_bodies_logError del: stringify_value.simps)
qed

section \<open>One log write, one response\<close>

text \<open>
  C8 fails on the code at a payload that \<^verbatim>\<open>JSON.stringify\<close> rejects. The validation branch
  serialises the payload for the log line before it logs and before it answers, and
  nothing catches what the serialisation throws: for the object
  \<^verbatim>\<open>{status: 400, error: [{field: "id", message: 10n}]}\<close> the call writes no log line and
  no response, and throws the \<^verbatim>\<open>TypeError\<close> of the serialisation.
\<close>

theorem bigint_payload_throws_before_logging:
  "handleError d (Plain (JObj [(''status'', JNum 400),
       (''error'', JArr [JObj [(''field'', JStr ''id''), (''message'', JBigInt 10)]])])) req res em
     = ([], Threw bigint_error)"
  by (simp add: classify_def has_status_def typeof_object_def status_in_def
      properties_def handleError_def formatValidationErrors_def property_def)

section \<open>The pipeline\<close>



lemma ends_with_iff: "ends_with s suf \<longleftrightarrow> (\<exists>stem. s = stem @ suf)"
proof
  assume "ends_with s suf"
  then have "s = take (length s - length suf) s @ suf"
    by (metis append_take_drop_id ends_with_def)
  then show "\<exists>stem. s = stem @ suf" ..
next
  assume "\<exists>stem. s = stem @ suf"
  then show "ends_with s suf" by (auto simp: ends_with_def)
qed




section \<open>The compression filter\<close>

text \<open>
  C10, as the code has it. The filter answers \<^verbatim>\<open>false\<close> (do not compress) exactly when the
  request has an \<^verbatim>\<open>x-no-compression\<close> header with a non-empty value, or its path ends
  with a dot and one of \<^verbatim>\<open>jpg jpeg png gif pdf svg mp4\<close>, letters compared without case.
  Whatever the filter answers, the compression stage hands the request on unchanged.
\<close>

theorem compression_filter_skips:
  "(compression_filter req = False \<longleftrightarrow>
      (\<exists>v. map_of (headers req) ''x-no-compression'' = Some v \<and> v \<noteq> [])
    \<or> (\<exists>ext \<in> set media_extensions. \<exists>stem. map ascii_lower (path req) = stem @ ''.'' @ ext))
   \<and> media_extensions = [''jpg'', ''jpeg'', ''png'', ''gif'', ''pdf'', ''svg'', ''mp4'']
   \<and> compression \<lparr>threshold = 1024, filter_fn = compression_filter\<rparr> cfg req = ([], Next req)"
  by (auto simp: compression_filter_def header_truthy_def path_matches_def list_ex_iff
      ends_with_iff compression_def media_extensions_def split: option.splits)

theorem compression_filter_skips_witness:
  "compression_filter
     \<lparr>req_method = ''GET'', originalUrl = ''/img/Logo.PNG?v=2'', url = ''/img/Logo.PNG?v=2'',
      path = ''/img/Logo.PNG'', headers = []\<rparr>
     = False
   \<and> (\<exists>ext \<in> set media_extensions. \<exists>stem. map ascii_lower ''/img/Logo.PNG'' = stem @ ''.'' @ ext)
   \<and> compression_filter
     \<lparr>req_method = ''GET'', originalUrl = ''/api/users'', url = ''/api/users'', path = ''/api/users'',
      headers = [(''x-no-compression'', ''1'')]\<rparr>
     = False
   \<and> compression_filter
     \<lparr>req_method = ''GET'', originalUrl = ''/api/users'', url = ''/api/users'', path = ''/api/users'',
      headers = []\<rparr>
     = True"
proof -
  let ?r = "\<lparr>req_method = ''GET'', originalUrl = ''/img/Logo.PNG?v=2'', url = ''/img/Logo.PNG?v=2'',
      path = ''/img/Logo.PNG'', headers = []\<rparr>"
  have skip: "compression_filter ?r = False"
    by (simp add: compression_filter_def header_truthy_def path_matches_def media_extensions_def
        ends_with_def ascii_lower_def)
  with compression_filter_skips [of ?r]
  have ext: "\<exists>ext \<in> set media_extensions. \<exists>stem. map ascii_lower ''/img/Logo.PNG'' = stem @ ''.'' @ ext"
    by simp
  from compression_filter_skips
    [of "\<lparr>req_method = ''GET'', originalUrl = ''/api/users'', url = ''/api/users'',
          path = ''/api/users'', headers = [(''x-no-compression'', ''1'')]\<rparr>"]
  have hdr: "compression_filter
     \<lparr>req_method = ''GET'', originalUrl = ''/api/users'', url = ''/api/users'', path = ''/api/users'',
      headers = [(''x-no-compression'', ''1'')]\<rparr> = False"
    by simp
  have none: "compression_filter
     \<lparr>req_method = ''GET'', originalUrl = ''/api/users'', url = ''/api/users'', path = ''/api/users'',
      headers = []\<rparr> = True"
    by (simp add: compression_filter_def header_truthy_def path_matches_def media_extensions_def
        ends_with_def ascii_lower_def)
  from skip ext hdr none show ?thesis
    by blast
qed

text \<open>
  C10 as stated fails: a request that carries the header \<^verbatim>\<open>x-no-compression\<close> with an
  empty value, on a path without a media extension, is not exempted from compression.
\<close>

theorem empty_override_header_still_compressed:
  "map_of (headers \<lparr>req_method = ''GET'', originalUrl = ''/api/users'', url = ''/api/users'',
       path = ''/api/users'', headers = [(''x-no-compression'', '''')]\<rparr>) ''x-no-compression''
     = Some ''''
   \<and> \<not> path_matches ''/api/users''
   \<and> compression_filter \<lparr>req_method = ''GET'', originalUrl = ''/api/users'', url = ''/api/users'',
       path = ''/api/users'', headers = [(''x-no-compression'', '''')]\<rparr> = True"
  by (simp add: compression_filter_def header_truthy_def path_matches_def media_extensions_def
      ends_with_def ascii_lower_def)

end
